theory Spec2Isabelle
  imports Complex_Main
begin

section \<open>Jarvis voice assistant: the orchestration logic of \<open>src/App.tsx\<close>\<close>

text \<open>
  The component \<open>App\<close> is embedded as a state machine over a record of its React state,
  its refs and a log of the calls it makes to the host (speech synthesis, speech
  recognition, network). Strings are ASCII texts (\<open>char list\<close>); \<open>toLowerCase\<close>, \<open>trim\<close>
  and the regular-expression classes \<open>\d\<close> and \<open>\s\<close> are modelled on ASCII characters.
\<close>

subsection \<open>String primitives of the host language\<close>

text \<open>\<open>String.prototype.startsWith\<close> and \<open>String.prototype.includes\<close>.\<close>

fun startsWith :: "string \<Rightarrow> string \<Rightarrow> bool" where
  "startsWith s [] = True"
| "startsWith [] (k # ks) = False"
| "startsWith (c # cs) (k # ks) = (c = k \<and> startsWith cs ks)"

fun str_includes :: "string \<Rightarrow> string \<Rightarrow> bool" where
  "str_includes [] k = (k = [])"
| "str_includes (c # cs) k = (startsWith (c # cs) k \<or> str_includes cs k)"

definition lowerChar :: "char \<Rightarrow> char" where
  "lowerChar c =
     (case map_of (zip ''ABCDEFGHIJKLMNOPQRSTUVWXYZ'' ''abcdefghijklmnopqrstuvwxyz'') c of
        Some d \<Rightarrow> d
      | None \<Rightarrow> c)"

definition toLowerCase :: "string \<Rightarrow> string" where
  "toLowerCase s = map lowerChar s"

text \<open>White space as matched by \<open>\s\<close> and removed by \<open>trim\<close>: space, tab, line feed,
  vertical tab, form feed, carriage return.\<close>

definition isSpace :: "char \<Rightarrow> bool" where
  "isSpace c = (c \<in> set [CHR '' '', CHR 0x09, CHR 0x0A, CHR 0x0B, CHR 0x0C, CHR 0x0D])"

definition isDigit :: "char \<Rightarrow> bool" where
  "isDigit c = (c \<in> set ''0123456789'')"

definition trim :: "string \<Rightarrow> string" where
  "trim s = rev (dropWhile isSpace (rev (dropWhile isSpace s)))"

text \<open>\<open>s.replace(pat, rep)\<close> with a string pattern: the first occurrence only.\<close>

fun replaceFirst :: "string \<Rightarrow> string \<Rightarrow> string \<Rightarrow> string" where
  "replaceFirst pat rep [] = (if pat = [] then rep else [])"
| "replaceFirst pat rep (c # cs) =
     (if startsWith (c # cs) pat then rep @ drop (length pat) (c # cs)
      else c # replaceFirst pat rep cs)"

subsection \<open>normalizeSymbol\<close>

text \<open>
  \<open>symbolMap\<close> is an object literal, so the read \<open>symbolMap[key]\<close> finds the object's own
  properties first and then the members every object inherits from \<open>Object.prototype\<close>.
  A value read from it is therefore one of the strings of the table or an inherited
  member, which is a function or an object and so neither a string nor falsy.
\<close>

datatype jsvalue = Str string | Inherited string

definition symbolMap :: "(string \<times> string) list" where
  "symbolMap =
     [(''bitcoin'', ''BTCUSDT''), (''btc'', ''BTCUSDT''),
      (''ethereum'', ''ETHUSDT''), (''eth'', ''ETHUSDT''),
      (''binance coin'', ''BNBUSDT''), (''bnb'', ''BNBUSDT''),
      (''cardano'', ''ADAUSDT''), (''ada'', ''ADAUSDT''),
      (''solana'', ''SOLUSDT''), (''sol'', ''SOLUSDT''),
      (''ripple'', ''XRPUSDT''), (''xrp'', ''XRPUSDT''),
      (''dogecoin'', ''DOGEUSDT''), (''doge'', ''DOGEUSDT''),
      (''polkadot'', ''DOTUSDT''), (''dot'', ''DOTUSDT''),
      (''avalanche'', ''AVAXUSDT''), (''avax'', ''AVAXUSDT''),
      (''shiba inu'', ''SHIBUSDT''), (''shib'', ''SHIBUSDT''),
      (''litecoin'', ''LTCUSDT''), (''ltc'', ''LTCUSDT''),
      (''chainlink'', ''LINKUSDT''), (''link'', ''LINKUSDT''),
      (''polygon'', ''MATICUSDT''), (''matic'', ''MATICUSDT'')]"

definition objectPrototypeMembers :: "string list" where
  "objectPrototypeMembers =
     [''constructor'', ''__defineGetter__'', ''__defineSetter__'', ''hasOwnProperty'',
      ''__lookupGetter__'', ''__lookupSetter__'', ''isPrototypeOf'',
      ''propertyIsEnumerable'', ''toString'', ''valueOf'', ''__proto__'',
      ''toLocaleString'']"

definition getProperty :: "(string \<times> string) list \<Rightarrow> string \<Rightarrow> jsvalue option" where
  "getProperty obj key =
     (case map_of obj key of
        Some v \<Rightarrow> Some (Str v)
      | None \<Rightarrow> if key \<in> set objectPrototypeMembers then Some (Inherited key) else None)"

definition truthy :: "jsvalue \<Rightarrow> bool" where
  "truthy v = (case v of Str s \<Rightarrow> s \<noteq> [] | Inherited m \<Rightarrow> True)"

text \<open>\<open>return symbolMap[normalizedInput] || null\<close>; \<open>None\<close> is \<open>null\<close>.\<close>

definition normalizeSymbol :: "string \<Rightarrow> jsvalue option" where
  "normalizeSymbol input =
     (let normalizedInput = trim (toLowerCase input) in
      case getProperty symbolMap normalizedInput of
        Some v \<Rightarrow> if truthy v then Some v else None
      | None \<Rightarrow> None)"

text \<open>The text a value yields inside a template literal.\<close>

definition toText :: "jsvalue \<Rightarrow> string" where
  "toText v =
     (case v of
        Str s \<Rightarrow> s
      | Inherited m \<Rightarrow>
          if m = ''__proto__'' then ''[object Object]''
          else if m = ''constructor'' then ''function Object() { [native code] }''
          else ''function '' @ m @ ''() { [native code] }'')"

subsection \<open>speakText: the rewriting of the text before it is spoken\<close>

definition replaceAllChar :: "char \<Rightarrow> string \<Rightarrow> string \<Rightarrow> string" where
  "replaceAllChar c rep s = concat (map (\<lambda>x. if x = c then rep else [x]) s)"

text \<open>The callback of the decimal rule. \<open>text\<close> is the text as given to \<open>speakText\<close>,
  \<open>match\<close> the matched substring.\<close>

definition decimalReading :: "string \<Rightarrow> string \<Rightarrow> string \<Rightarrow> string \<Rightarrow> string" where
  "decimalReading text match whole decimal =
     (if str_includes match ''$'' \<or> str_includes (toLowerCase text) ''price''
         \<or> str_includes (toLowerCase text) ''dollar''
      then whole @ '' dollars and '' @ decimal @ '' cents''
      else whole @ '' point '' @ decimal)"

text \<open>
  \<open>.replace(/(\d+)\.(\d+)/g, callback)\<close>: at each position the greedy \<open>\d+\<close> takes the
  whole run of digits, which must be followed by a dot and at least one digit; after a
  match the scan goes on behind it, otherwise one character further.
\<close>

function replaceDecimals :: "string \<Rightarrow> string \<Rightarrow> string" where
  "replaceDecimals text [] = []"
| "replaceDecimals text (c # cs) =
     (let whole = takeWhile isDigit (c # cs);
          rest = dropWhile isDigit (c # cs);
          decimal = takeWhile isDigit (tl rest)
      in if whole \<noteq> [] \<and> rest \<noteq> [] \<and> hd rest = CHR ''.'' \<and> decimal \<noteq> []
         then decimalReading text (whole @ ''.'' @ decimal) whole decimal
              @ replaceDecimals text (dropWhile isDigit (tl rest))
         else c # replaceDecimals text cs)"
  by pat_completeness auto
termination
proof (relation "measure (\<lambda>(text, s). length s)")
  show "wf (measure (\<lambda>(text, s). length s))" by simp
next
  fix t :: string and c :: char and cs whole rest decimal :: string
  assume r: "rest = dropWhile isDigit (c # cs)"
    and ne: "whole \<noteq> [] \<and> rest \<noteq> [] \<and> hd rest = CHR ''.'' \<and> decimal \<noteq> []"
  have "length (dropWhile isDigit (tl rest)) \<le> length (tl rest)"
    by (rule length_dropWhile_le)
  also have "length (tl rest) < length rest" using ne by (cases rest) auto
  also have "length rest \<le> length (c # cs)" unfolding r by (rule length_dropWhile_le)
  finally show "((t, dropWhile isDigit (tl rest)), (t, c # cs))
      \<in> measure (\<lambda>(text, s). length s)" by simp
next
  fix t :: string and c :: char and cs :: string
  show "((t, cs), (t, c # cs)) \<in> measure (\<lambda>(text, s). length s)" by simp
qed

text \<open>\<open>.replace(/\s+/g, ' ')\<close>: every maximal run of white space becomes one space.\<close>

function collapseSpaces :: "string \<Rightarrow> string" where
  "collapseSpaces [] = []"
| "collapseSpaces (c # cs) =
     (if isSpace c then CHR '' '' # collapseSpaces (dropWhile isSpace cs)
      else c # collapseSpaces cs)"
  by pat_completeness auto
termination
proof (relation "measure length")
  show "wf (measure length)" by simp
next
  fix c :: char and cs :: string
  have "length (dropWhile isSpace cs) \<le> length cs" by (rule length_dropWhile_le)
  then show "(dropWhile isSpace cs, c # cs) \<in> measure length" by simp
next
  fix c :: char and cs :: string
  show "(cs, c # cs) \<in> measure length" by simp
qed

definition formattedText :: "string \<Rightarrow> string" where
  "formattedText text =
     collapseSpaces
       (replaceAllChar (CHR 0x0A) ''. ''
          (replaceDecimals text
             (replaceAllChar (CHR ''%'') '' percent ''
                (replaceAllChar (CHR ''$'') '' dollars '' text))))"

subsection \<open>Numbers\<close>

text \<open>
  A number of the host language: not-a-number, the two infinities, or a finite value.
  Comparisons and \<open>Math.abs\<close> are exact on the values. Parsing, division and rendering
  with two decimals round, and are left to the host: they are the fields of \<open>host\<close>.
\<close>

datatype number = NaN | NegInf | Fin real | PosInf

fun num_less :: "number \<Rightarrow> number \<Rightarrow> bool" where
  "num_less (Fin a) (Fin b) = (a < b)"
| "num_less NegInf (Fin b) = True"
| "num_less NegInf PosInf = True"
| "num_less (Fin a) PosInf = True"
| "num_less _ _ = False"

definition num_greater :: "number \<Rightarrow> number \<Rightarrow> bool" where
  "num_greater a b = num_less b a"

fun Math_abs :: "number \<Rightarrow> number" where
  "Math_abs NaN = NaN"
| "Math_abs NegInf = PosInf"
| "Math_abs (Fin a) = Fin \<bar>a\<bar>"
| "Math_abs PosInf = PosInf"

record host =
  parseFloat :: "string \<Rightarrow> number"
  toFixed2 :: "number \<Rightarrow> string"
  divide :: "number \<Rightarrow> number \<Rightarrow> number"

subsection \<open>speakAnalysis and generateAdvice\<close>

record Ticker24hr =
  priceChange :: string
  priceChangePercent :: string
  lastPrice :: string
  volume :: string
  highPrice :: string
  lowPrice :: string

record CryptoData = Ticker24hr +
  symbol :: jsvalue

record HistoricalPrice =
  time :: number
  price :: number

definition generateAdvice :: "number \<Rightarrow> string \<Rightarrow> string" where
  "generateAdvice priceChangePercent' trend =
     (if num_greater (Math_abs priceChangePercent') (Fin 5) then
        (if num_greater priceChangePercent' (Fin 0)
         then ''Be cautious as this significant upward movement might be followed by a correction.''
         else ''This significant drop might present a buying opportunity, but be aware that the downtrend might continue.'')
      else if trend = ''relatively stable'' then
        ''The market appears to be consolidating. This might be a period of accumulation before the next significant move.''
      else
        ''Consider your investment strategy based on your risk tolerance and long-term outlook.'')"

text \<open>The local variables \<open>trend\<close> and \<open>sentiment\<close> of \<open>speakAnalysis\<close>, after the
  override, from \<open>priceChangeNum\<close> and \<open>priceChangePercentNum\<close>.\<close>

definition trendOf :: "number \<Rightarrow> number \<Rightarrow> string" where
  "trendOf priceChangeNum priceChangePercentNum =
     (let trend = (if num_greater priceChangeNum (Fin 0) then ''upward'' else ''downward'')
      in if num_less (Math_abs priceChangePercentNum) (Fin (1/2))
         then ''relatively stable'' else trend)"

definition sentimentOf :: "number \<Rightarrow> number \<Rightarrow> string" where
  "sentimentOf priceChangeNum priceChangePercentNum =
     (let sentiment = (if num_greater priceChangeNum (Fin 0) then ''positive'' else ''negative'')
      in if num_less (Math_abs priceChangePercentNum) (Fin (1/2))
         then ''neutral'' else sentiment)"

text \<open>The text \<open>speakAnalysis\<close> hands to \<open>speakText\<close>, for a symbol that is a string.\<close>

definition analysisText :: "host \<Rightarrow> string \<Rightarrow> CryptoData \<Rightarrow> string" where
  "analysisText h symbolText data =
     (let readableSymbol = replaceFirst ''USDT'' [] symbolText;
          priceChangeNum = parseFloat h (priceChange data);
          priceChangePercentNum = parseFloat h (priceChangePercent data);
          lastPriceNum = parseFloat h (lastPrice data);
          trend = trendOf priceChangeNum priceChangePercentNum;
          sentiment = sentimentOf priceChangeNum priceChangePercentNum
      in ''Here's my analysis for '' @ readableSymbol @ ''. ''
         @ ''The current price is $'' @ toFixed2 h lastPriceNum @ '' US dollars. ''
         @ ''In the last 24 hours, the price has changed by $'' @ toFixed2 h priceChangeNum
         @ '' dollars, ''
         @ ''which is a '' @ toFixed2 h (Math_abs priceChangePercentNum) @ ''% ''
         @ (if num_greater priceChangeNum (Fin 0) then ''increase'' else ''decrease'') @ ''. ''
         @ ''The highest price reached was $'' @ toFixed2 h (parseFloat h (highPrice data))
         @ '' dollars, ''
         @ ''while the lowest was $'' @ toFixed2 h (parseFloat h (lowPrice data))
         @ '' dollars. ''
         @ ''The trading volume is approximately ''
         @ toFixed2 h (divide h (parseFloat h (volume data)) (Fin 1000000))
         @ '' million dollars. ''
         @ ''Overall, '' @ readableSymbol @ '' is showing a '' @ trend @ '' trend with ''
         @ sentiment @ '' momentum in the last 24 hours. ''
         @ generateAdvice priceChangePercentNum trend)"

subsection \<open>handleConversation\<close>

datatype topic =
  Identity | Wellbeing | Capabilities | TimeDate | Weather | Joke | Thanks | Farewell
  | Unrecognized

text \<open>The branch of \<open>handleConversation\<close> taken for the lower-cased text.\<close>

definition conversationTopic :: "string \<Rightarrow> topic" where
  "conversationTopic lowerText =
     (if str_includes lowerText ''who are you'' \<or> str_includes lowerText ''what are you''
         \<or> str_includes lowerText ''your name''
         \<or> (str_includes lowerText ''who'' \<and> str_includes lowerText ''jarvis'')
      then Identity
      else if str_includes lowerText ''how are you'' \<or> str_includes lowerText ''how do you feel''
         \<or> str_includes lowerText ''how's it going''
      then Wellbeing
      else if str_includes lowerText ''what can you do''
         \<or> str_includes lowerText ''your capabilities'' \<or> str_includes lowerText ''help me''
      then Capabilities
      else if str_includes lowerText ''what time'' \<or> str_includes lowerText ''what day''
         \<or> str_includes lowerText ''what is the date''
      then TimeDate
      else if str_includes lowerText ''weather'' \<or> str_includes lowerText ''temperature''
      then Weather
      else if str_includes lowerText ''joke'' \<or> str_includes lowerText ''funny''
      then Joke
      else if str_includes lowerText ''thank you'' \<or> str_includes lowerText ''thanks''
      then Thanks
      else if str_includes lowerText ''goodbye'' \<or> str_includes lowerText ''bye''
         \<or> str_includes lowerText ''see you''
      then Farewell
      else Unrecognized)"

text \<open>What the surroundings supply when a reply is composed: the value of
  \<open>Math.floor(Math.random() * n)\<close> (taken modulo \<open>n\<close>) and the clock's two texts.\<close>

record ambient =
  randomIndex :: nat
  timeString :: string
  dateString :: string

definition pick :: "ambient \<Rightarrow> string list \<Rightarrow> string" where
  "pick amb responses = responses ! (randomIndex amb mod length responses)"

definition conversationReply :: "ambient \<Rightarrow> topic \<Rightarrow> string" where
  "conversationReply amb tp =
     (case tp of
        Identity \<Rightarrow> ''I am Jarvis, an AI cryptocurrency analysis assistant developed by Eser Software. I was designed to help you track and analyze cryptocurrency markets in real-time. I can provide you with price information, market trends, and basic investment insights for various cryptocurrencies.''
      | Wellbeing \<Rightarrow> pick amb
          [''I'm functioning optimally, thank you for asking. How can I assist you with cryptocurrency analysis today?'',
           ''I'm operating at peak efficiency. Ready to analyze any cryptocurrency you're interested in.'',
           ''All systems are running smoothly. I'm ready to provide you with crypto market insights whenever you need them.'']
      | Capabilities \<Rightarrow> ''I can provide real-time cryptocurrency analysis. Just mention a cryptocurrency like Bitcoin or Ethereum, and I'll fetch the latest market data including price, 24-hour changes, trading volume, and a 7-day price chart. I can also offer basic market insights based on recent price movements. Feel free to ask me about any major cryptocurrency.''
      | TimeDate \<Rightarrow> ''The current time is '' @ timeString amb @ '' and today is ''
          @ dateString amb @ ''.''
      | Weather \<Rightarrow> ''I'm sorry, I don't have access to weather information. I specialize in cryptocurrency analysis. Is there a specific cryptocurrency you'd like information about?''
      | Joke \<Rightarrow> pick amb
          [''Why don't Bitcoin investors want to go to heaven? They hate it when things go up and never come back down.'',
           ''Why was the cryptocurrency investor always calm? Because they were HODLing their breath.'',
           ''What do you call a cryptocurrency investor who finally sells? Bitconned.'',
           ''I told my wife I was investing all our money in crypto. She was so shocked, she was speechless for a whole Bitcoin transaction confirmation time.'']
      | Thanks \<Rightarrow> pick amb
          [''You're welcome. I'm here anytime you need cryptocurrency insights.'',
           ''Happy to help. Feel free to ask about any cryptocurrency you're interested in.'',
           ''My pleasure. I'm always ready to provide market analysis when you need it.'']
      | Farewell \<Rightarrow> pick amb
          [''Goodbye. I'll be here when you need more cryptocurrency analysis.'',
           ''Until next time. Remember, markets change quickly, so check back for updated analysis.'',
           ''Farewell. I'll keep monitoring the crypto markets while you're away.'']
      | Unrecognized \<Rightarrow> ''I'm not sure I understand. I'm specialized in cryptocurrency analysis. You can ask me about Bitcoin, Ethereum, or other major cryptocurrencies, or ask me who I am or how I'm doing.'')"

subsection \<open>The state of the component and of its host\<close>

text \<open>
  The answer of a \<open>fetch\<close> followed by \<open>response.json()\<close>: the promise is rejected (with an
  \<open>Error\<close> and its message, or with something else), the status is not ok, or a body.
\<close>

datatype 'a response = Rejected "string option" | NotOk | Ok 'a

datatype request = TickerRequest string | KlinesRequest string

text \<open>Where \<open>fetchCryptoData\<close> is suspended: at the \<open>await\<close> of the ticker, or inside
  \<open>fetchHistoricalPrices\<close> at the \<open>await\<close> of the candles.\<close>

datatype pending = NoRequest | AwaitTicker string jsvalue | AwaitKlines string CryptoData

text \<open>
  The \<open>useState\<close> cells, the refs \<open>wakeWordTimer\<close> (a timer is armed) and
  \<open>processingCommand\<close>, the two capabilities of the browser, and what the host holds:
  whether the recognition stream runs, how often \<open>SpeechRecognition.stopListening\<close> and
  \<open>resetTranscript\<close> were called, the utterance being spoken, every utterance handed to
  \<open>speechSynthesis.speak\<close>, every request sent, and the suspended fetch.
\<close>

record app =
  autoListening :: bool
  listening :: bool
  cryptoData :: "CryptoData option"
  historicalPrices :: "HistoricalPrice list"
  loading :: bool
  speaking :: bool
  error :: "string option"
  wakeWordDetected :: bool
  wakeWordTimer :: bool
  processingCommand :: bool
  lastInteraction :: string
  browserSupportsSpeechRecognition :: bool
  speechSynthesis :: bool
  recognizing :: bool
  stopListeningCalls :: nat
  transcriptResets :: nat
  utterance :: "string option"
  spoken :: "string list"
  requests :: "request list"
  pending :: pending

definition startListening :: "app \<Rightarrow> app" where
  "startListening s = s\<lparr>recognizing := True\<rparr>"

definition stopListening :: "app \<Rightarrow> app" where
  "stopListening s = s\<lparr>recognizing := False, stopListeningCalls := Suc (stopListeningCalls s)\<rparr>"

definition resetTranscript :: "app \<Rightarrow> app" where
  "resetTranscript s = s\<lparr>transcriptResets := Suc (transcriptResets s)\<rparr>"

text \<open>\<open>speakText\<close>: nothing at all happens without \<open>speechSynthesis\<close>; otherwise the
  rewritten text replaces whatever is being spoken (\<open>cancel\<close>, then \<open>speak\<close>).\<close>

definition speakText :: "string \<Rightarrow> app \<Rightarrow> app" where
  "speakText text s =
     (if speechSynthesis s
      then s\<lparr>speaking := True,
             utterance := Some (formattedText text),
             spoken := spoken s @ [formattedText text]\<rparr>
      else s)"

text \<open>\<open>utterance.onend\<close>.\<close>

definition utteranceEnd :: "app \<Rightarrow> app" where
  "utteranceEnd s =
     (case utterance s of
        None \<Rightarrow> s
      | Some u \<Rightarrow> s\<lparr>speaking := False, processingCommand := False, utterance := None\<rparr>)"

text \<open>\<open>speakAnalysis\<close>: \<open>data.symbol.replace\<close> is a \<open>TypeError\<close> (\<open>Inl\<close>, with its message)
  when the symbol is not a string.\<close>

definition speakAnalysis :: "host \<Rightarrow> CryptoData \<Rightarrow> app \<Rightarrow> string + app" where
  "speakAnalysis h data s =
     (case symbol data of
        Str symbolText \<Rightarrow> Inr (speakText (analysisText h symbolText data) s)
      | Inherited m \<Rightarrow> Inl ''data.symbol.replace is not a function'')"

subsection \<open>fetchCryptoData and fetchHistoricalPrices\<close>

text \<open>The \<open>catch\<close> and \<open>finally\<close> blocks of \<open>fetchCryptoData\<close>, and the
  \<open>resetTranscript\<close> that follows the call in \<open>processCommand\<close>.\<close>

definition fetchCryptoDataCatch :: "string \<Rightarrow> string option \<Rightarrow> app \<Rightarrow> app" where
  "fetchCryptoDataCatch symbol' err s =
     (let s1 = s\<lparr>error := Some (case err of Some m \<Rightarrow> m
                                  | None \<Rightarrow> ''An unknown error occurred'')\<rparr>;
          s2 = speakText (''I'm sorry, I couldn't retrieve data for '' @ symbol' @ ''. ''
                 @ (case err of Some m \<Rightarrow> m | None \<Rightarrow> ''Please try again.'')) s1
      in resetTranscript (s2\<lparr>loading := False\<rparr>))"

text \<open>The end of the \<open>try\<close> block: \<open>speakAnalysis\<close>, then \<open>finally\<close> and
  \<open>resetTranscript\<close>.\<close>

definition analysisStep :: "host \<Rightarrow> string \<Rightarrow> CryptoData \<Rightarrow> app \<Rightarrow> app" where
  "analysisStep h symbol' data s =
     (case speakAnalysis h data s of
        Inr s1 \<Rightarrow> resetTranscript (s1\<lparr>loading := False\<rparr>)
      | Inl m \<Rightarrow> fetchCryptoDataCatch symbol' (Some m) s)"

text \<open>\<open>fetchHistoricalPrices\<close> up to its \<open>await\<close>; it returns at once when the symbol
  is not recognised, and the caller goes on.\<close>

definition fetchHistoricalPrices :: "host \<Rightarrow> string \<Rightarrow> CryptoData \<Rightarrow> app \<Rightarrow> app" where
  "fetchHistoricalPrices h symbol' data s =
     (case normalizeSymbol symbol' of
        None \<Rightarrow> analysisStep h symbol' data s
      | Some normalizedSymbol \<Rightarrow>
          s\<lparr>requests := requests s @ [KlinesRequest (toText normalizedSymbol)],
            pending := AwaitKlines symbol' data\<rparr>)"

text \<open>\<open>fetchCryptoData\<close> up to its \<open>await\<close>.\<close>

definition fetchCryptoData :: "string \<Rightarrow> app \<Rightarrow> app" where
  "fetchCryptoData symbol' s =
     (let s1 = s\<lparr>loading := True, speaking := True, error := None,
                  lastInteraction := ''crypto''\<rparr>
      in case normalizeSymbol symbol' of
           None \<Rightarrow>
             fetchCryptoDataCatch symbol'
               (Some (''Could not recognize cryptocurrency: '' @ symbol')) s1
         | Some normalizedSymbol \<Rightarrow>
             s1\<lparr>requests := requests s1 @ [TickerRequest (toText normalizedSymbol)],
                pending := AwaitTicker symbol' normalizedSymbol\<rparr>)"

text \<open>The ticker's answer arrives: \<open>fetchCryptoData\<close> goes on behind its \<open>await\<close>.\<close>

definition tickerResponse :: "host \<Rightarrow> Ticker24hr response \<Rightarrow> app \<Rightarrow> app" where
  "tickerResponse h r s =
     (case pending s of
        AwaitTicker symbol' normalizedSymbol \<Rightarrow>
          (let s0 = s\<lparr>pending := NoRequest\<rparr>
           in case r of
                Rejected err \<Rightarrow> fetchCryptoDataCatch symbol' err s0
              | NotOk \<Rightarrow>
                  fetchCryptoDataCatch symbol'
                    (Some (''Failed to fetch data for '' @ toText normalizedSymbol)) s0
              | Ok d \<Rightarrow>
                  (let data = \<lparr>priceChange = priceChange d,
                               priceChangePercent = priceChangePercent d,
                               lastPrice = lastPrice d,
                               volume = volume d,
                               highPrice = highPrice d,
                               lowPrice = lowPrice d,
                               symbol = normalizedSymbol\<rparr>
                   in fetchHistoricalPrices h symbol' data (s0\<lparr>cryptoData := Some data\<rparr>)))
      | AwaitKlines symbol' data \<Rightarrow> s
      | NoRequest \<Rightarrow> s)"

text \<open>The candles' answer arrives: a failure is caught and logged inside
  \<open>fetchHistoricalPrices\<close>, a body is mapped to (open time, close price) and stored.\<close>

definition klinesResponse :: "host \<Rightarrow> (number \<times> string) list response \<Rightarrow> app \<Rightarrow> app" where
  "klinesResponse h r s =
     (case pending s of
        AwaitKlines symbol' data \<Rightarrow>
          (let s0 = s\<lparr>pending := NoRequest\<rparr>;
               s1 = (case r of
                       Ok items \<Rightarrow>
                         s0\<lparr>historicalPrices :=
                              map (\<lambda>item. \<lparr>time = fst item, price = parseFloat h (snd item)\<rparr>)
                                items\<rparr>
                     | Rejected err \<Rightarrow> s0
                     | NotOk \<Rightarrow> s0)
           in analysisStep h symbol' data s1)
      | AwaitTicker symbol' normalizedSymbol \<Rightarrow> s
      | NoRequest \<Rightarrow> s)"

subsection \<open>processCommand\<close>

text \<open>The first test of \<open>processCommand\<close> ("check for conversation queries first").\<close>

definition conversationQuery :: "string \<Rightarrow> bool" where
  "conversationQuery lowerTranscript =
     (str_includes lowerTranscript ''who are you''
      \<or> str_includes lowerTranscript ''what are you''
      \<or> str_includes lowerTranscript ''how are you''
      \<or> str_includes lowerTranscript ''what can you do''
      \<or> str_includes lowerTranscript ''your name''
      \<or> str_includes lowerTranscript ''what time''
      \<or> str_includes lowerTranscript ''what day''
      \<or> str_includes lowerTranscript ''weather''
      \<or> str_includes lowerTranscript ''joke''
      \<or> str_includes lowerTranscript ''funny''
      \<or> str_includes lowerTranscript ''goodbye''
      \<or> str_includes lowerTranscript ''bye''
      \<or> str_includes lowerTranscript ''see you'')"

definition cryptoKeywords :: "string list" where
  "cryptoKeywords =
     [''bitcoin'', ''btc'', ''ethereum'', ''eth'', ''binance coin'', ''bnb'',
      ''cardano'', ''ada'', ''solana'', ''sol'', ''ripple'', ''xrp'',
      ''dogecoin'', ''doge'', ''polkadot'', ''dot'', ''avalanche'', ''avax'',
      ''shiba inu'', ''shib'', ''litecoin'', ''ltc'', ''chainlink'', ''link'',
      ''polygon'', ''matic'']"

text \<open>The branch \<open>processCommand\<close> takes, in the order of its tests; \<open>NoCommand\<close> when it
  falls through the last \<open>else if\<close>.\<close>

datatype command =
  Conversation topic | CryptoQuery string | Hello | ThankYou | Help | StopListening
  | NoCommand

definition classify :: "string \<Rightarrow> command" where
  "classify transcript =
     (let lowerTranscript = toLowerCase transcript
      in if conversationQuery lowerTranscript
         then Conversation (conversationTopic (toLowerCase lowerTranscript))
         else case find (\<lambda>keyword. str_includes lowerTranscript keyword) cryptoKeywords of
                Some keyword \<Rightarrow> CryptoQuery keyword
              | None \<Rightarrow>
                  if str_includes lowerTranscript ''hello jarvis''
                     \<or> str_includes lowerTranscript ''hi jarvis''
                     \<or> str_includes lowerTranscript ''hello''
                     \<or> str_includes lowerTranscript ''hi''
                  then Hello
                  else if str_includes lowerTranscript ''thank you''
                     \<or> str_includes lowerTranscript ''thanks''
                  then ThankYou
                  else if str_includes lowerTranscript ''help'' then Help
                  else if str_includes lowerTranscript ''stop listening'' then StopListening
                  else NoCommand)"

definition handleConversation :: "ambient \<Rightarrow> topic \<Rightarrow> app \<Rightarrow> app" where
  "handleConversation amb tp s =
     speakText (conversationReply amb tp)
       (s\<lparr>processingCommand := True, speaking := True,
          lastInteraction := ''conversation''\<rparr>)"

definition processCommand :: "ambient \<Rightarrow> string \<Rightarrow> app \<Rightarrow> app" where
  "processCommand amb transcript s =
     (let s1 = (if str_includes (toLowerCase transcript) ''jarvis''
                then s\<lparr>wakeWordDetected := True, wakeWordTimer := True\<rparr> else s)
      in case classify transcript of
           Conversation tp \<Rightarrow> resetTranscript (handleConversation amb tp s1)
         | CryptoQuery keyword \<Rightarrow> fetchCryptoData keyword (s1\<lparr>processingCommand := True\<rparr>)
         | Hello \<Rightarrow>
             resetTranscript
               (speakText (''Hello, I am Jarvis, your cryptocurrency analysis assistant. You can ask me about various cryptocurrencies like Bitcoin or Ethereum, or ask me questions like 'How are you?' or 'Who are you?'' @ [CHR 0x27])
                  (s1\<lparr>processingCommand := True, lastInteraction := ''conversation''\<rparr>))
         | ThankYou \<Rightarrow>
             resetTranscript
               (speakText ''You're welcome. I'm here to help with your cryptocurrency analysis needs.''
                  (s1\<lparr>processingCommand := True, lastInteraction := ''conversation''\<rparr>))
         | Help \<Rightarrow>
             resetTranscript
               (speakText (''I can provide you with 24-hour analysis of various cryptocurrencies. Just say a cryptocurrency name like Bitcoin or Ethereum, and I'll fetch the latest data and provide an analysis. You can also ask me general questions like 'How are you?' or 'Who are you?'' @ [CHR 0x27])
                  (s1\<lparr>processingCommand := True, lastInteraction := ''conversation''\<rparr>))
         | StopListening \<Rightarrow>
             resetTranscript
               (speakText ''I've stopped listening. Click the microphone button when you want me to listen again.''
                  ((stopListening
                      (s1\<lparr>processingCommand := True, lastInteraction := ''conversation'',
                          autoListening := False\<rparr>))\<lparr>listening := False\<rparr>))
         | NoCommand \<Rightarrow> s1)"

text \<open>The effect that processes voice commands, run for a transcript.\<close>

definition transcriptEffect :: "ambient \<Rightarrow> string \<Rightarrow> app \<Rightarrow> app" where
  "transcriptEffect amb transcript s =
     (if \<not> listening s \<or> transcript = [] then s
      else if processingCommand s then s
      else processCommand amb transcript s)"

subsection \<open>Listening on and off\<close>

definition toggleListening :: "app \<Rightarrow> app" where
  "toggleListening s =
     (if listening s
      then (stopListening s)\<lparr>listening := False, autoListening := False\<rparr>
      else resetTranscript ((startListening s)\<lparr>listening := True, autoListening := True\<rparr>))"

text \<open>
  The effect on \<open>[autoListening, browserSupportsSpeechRecognition]\<close>: when a handler has
  changed \<open>autoListening\<close>, the clean-up of the previous run stops the stream and the body
  runs again.
\<close>

definition autoListeningBody :: "app \<Rightarrow> app" where
  "autoListeningBody s =
     (if autoListening s \<and> browserSupportsSpeechRecognition s
      then (startListening s)\<lparr>listening := True\<rparr>
      else s)"

definition autoListeningEffect :: "app \<Rightarrow> app \<Rightarrow> app" where
  "autoListeningEffect previous s =
     (if autoListening s = autoListening previous then s
      else autoListeningBody (stopListening s))"

text \<open>The component once mounted, on a browser with or without the two capabilities.\<close>

definition mounted :: "bool \<Rightarrow> bool \<Rightarrow> app" where
  "mounted recognition synthesis =
     autoListeningBody
       \<lparr>autoListening = True, listening = False, cryptoData = None, historicalPrices = [],
        loading = False, speaking = False, error = None, wakeWordDetected = False,
        wakeWordTimer = False, processingCommand = False, lastInteraction = [],
        browserSupportsSpeechRecognition = recognition, speechSynthesis = synthesis,
        recognizing = False, stopListeningCalls = 0, transcriptResets = 0,
        utterance = None, spoken = [], requests = [], pending = NoRequest\<rparr>"

subsection \<open>Events\<close>

datatype event =
  Transcript string ambient
  | TickerResponse "Ticker24hr response"
  | KlinesResponse "(number \<times> string) list response"
  | SpeechEnd
  | ToggleListening
  | WakeWordTimeout

text \<open>
  What the component reacts to: the recognition hook delivers a transcript (and the effect
  on it runs), a fetch is answered, the utterance ends, the microphone button is clicked
  (the button is rendered only where recognition is supported), the wake-word timer fires.
\<close>

definition handle :: "host \<Rightarrow> app \<Rightarrow> event \<Rightarrow> app" where
  "handle h s e =
     (case e of
        Transcript transcript amb \<Rightarrow> transcriptEffect amb transcript s
      | TickerResponse r \<Rightarrow> tickerResponse h r s
      | KlinesResponse r \<Rightarrow> klinesResponse h r s
      | SpeechEnd \<Rightarrow> utteranceEnd s
      | ToggleListening \<Rightarrow>
          if browserSupportsSpeechRecognition s then toggleListening s else s
      | WakeWordTimeout \<Rightarrow>
          if wakeWordTimer s then s\<lparr>wakeWordDetected := False, wakeWordTimer := False\<rparr>
          else s)"

definition step :: "host \<Rightarrow> app \<Rightarrow> event \<Rightarrow> app" where
  "step h s e = autoListeningEffect s (handle h s e)"

fun run :: "host \<Rightarrow> app \<Rightarrow> event list \<Rightarrow> app" where
  "run h s [] = s"
| "run h s (e # es) = run h (step h s e) es"


subsection \<open>The single-flight invariant and concrete inputs\<close>


text \<open>A host whose numeric functions know no number, a moment of the surroundings, and
  the ticker of the scenario in the specification.\<close>

definition sampleHost :: host where
  "sampleHost =
     \<lparr>parseFloat = (\<lambda>s. NaN), toFixed2 = (\<lambda>n. ''NaN''), divide = (\<lambda>a b. NaN)\<rparr>"

definition sampleAmbient :: ambient where
  "sampleAmbient =
     \<lparr>randomIndex = 0, timeString = ''3:00 PM'', dateString = ''Monday, November 2, 2026''\<rparr>"

definition sampleTicker :: Ticker24hr where
  "sampleTicker =
     \<lparr>priceChange = ''500.00'', priceChangePercent = ''0.77'', lastPrice = ''65000.00'',
      volume = ''15000000'', highPrice = ''66000.00'', lowPrice = ''64000.00''\<rparr>"

section \<open>Supporting lemmas\<close>

subsection \<open>Strings and classification\<close>

lemma lowerChar_idem: "lowerChar (lowerChar c) = lowerChar c"
  by (simp add: lowerChar_def)

lemma toLowerCase_idem: "toLowerCase (toLowerCase t) = toLowerCase t"
  by (simp add: toLowerCase_def lowerChar_idem)

lemma find_Some_set: "find P xs = Some x \<Longrightarrow> x \<in> set xs \<and> P x"
  by (induction xs) (auto split: if_splits)

lemma find_crypto:
  "\<exists>k\<in>set cryptoKeywords. str_includes l k \<Longrightarrow>
     \<exists>k. find (\<lambda>keyword. str_includes l keyword) cryptoKeywords = Some k"
  by (cases "find (\<lambda>keyword. str_includes l keyword) cryptoKeywords")
     (auto simp: find_None_iff)

text \<open>Every phrase of the first test of \<open>processCommand\<close> selects a branch of
  \<open>handleConversation\<close> other than the last one.\<close>

lemma conversationQuery_topic:
  "conversationQuery l \<Longrightarrow> conversationTopic l \<noteq> Unrecognized"
  unfolding conversationQuery_def conversationTopic_def by auto

lemma classify_NoCommand_iff:
  "classify t = NoCommand \<longleftrightarrow>
     \<not> conversationQuery (toLowerCase t)
     \<and> (\<forall>k\<in>set cryptoKeywords. \<not> str_includes (toLowerCase t) k)
     \<and> \<not> str_includes (toLowerCase t) ''hello jarvis''
     \<and> \<not> str_includes (toLowerCase t) ''hi jarvis''
     \<and> \<not> str_includes (toLowerCase t) ''hello''
     \<and> \<not> str_includes (toLowerCase t) ''hi''
     \<and> \<not> str_includes (toLowerCase t) ''thank you''
     \<and> \<not> str_includes (toLowerCase t) ''thanks''
     \<and> \<not> str_includes (toLowerCase t) ''help''
     \<and> \<not> str_includes (toLowerCase t) ''stop listening''"
  by (auto simp: classify_def Let_def find_None_iff split: option.splits dest: find_Some_set)

lemma classify_not_Unrecognized: "classify t \<noteq> Conversation Unrecognized"
  by (auto simp: classify_def Let_def toLowerCase_idem conversationQuery_topic
      split: option.splits)

lemma classify_empty: "classify [] = NoCommand"
  by code_simp

text \<open>The alias of a crypto query is the first keyword, in the order of the list, that the
  lower-cased transcript contains.\<close>

lemma classify_CryptoQuery_first:
  "classify t = CryptoQuery k \<Longrightarrow>
     find (\<lambda>keyword. str_includes (toLowerCase t) keyword) cryptoKeywords = Some k
     \<and> k \<in> set cryptoKeywords \<and> str_includes (toLowerCase t) k"
  by (auto simp: classify_def Let_def split: if_splits option.splits dest: find_Some_set)

text \<open>Classification and symbols of the transcripts used below.\<close>

lemma eval_classify:
  "classify ''bitcoin'' = CryptoQuery ''bitcoin''"
  "classify ''ethereum'' = CryptoQuery ''ethereum''"
  "classify ''stop listening'' = StopListening"
  "classify ''good morning'' = NoCommand"
  "classify ''tell me a story'' = NoCommand"
  "classify ''eth and Bitcoin'' = CryptoQuery ''bitcoin''"
  by code_simp+

lemma eval_wake:
  "\<not> str_includes (toLowerCase ''bitcoin'') ''jarvis''"
  "\<not> str_includes (toLowerCase ''ethereum'') ''jarvis''"
  "\<not> str_includes (toLowerCase ''stop listening'') ''jarvis''"
  "\<not> str_includes (toLowerCase ''good morning'') ''jarvis''"
  "\<not> str_includes (toLowerCase ''tell me a story'') ''jarvis''"
  by code_simp+

lemma eval_normalize:
  "normalizeSymbol ''bitcoin'' = Some (Str ''BTCUSDT'')"
  "normalizeSymbol ''ethereum'' = Some (Str ''ETHUSDT'')"
  "normalizeSymbol ''dogecoin'' = Some (Str ''DOGEUSDT'')"
  "normalizeSymbol ''moonrocket'' = None"
  by code_simp+

text \<open>Every keyword of \<open>processCommand\<close> is a key of \<open>symbolMap\<close> and resolves to the
  string stored there.\<close>

lemma cryptoKeywords_resolve:
  "list_all (\<lambda>k. normalizeSymbol k = map_option Str (map_of symbolMap k)
                \<and> map_of symbolMap k \<noteq> None) cryptoKeywords"
  by code_simp

subsection \<open>Frame properties of the handlers\<close>

lemmas host_calls = startListening_def stopListening_def resetTranscript_def speakText_def

lemmas machine =
  step_def handle_def transcriptEffect_def processCommand_def fetchCryptoData_def
  tickerResponse_def klinesResponse_def fetchHistoricalPrices_def analysisStep_def
  speakAnalysis_def utteranceEnd_def mounted_def autoListeningBody_def autoListeningEffect_def
  fetchCryptoDataCatch_def toggleListening_def handleConversation_def
  startListening_def stopListening_def resetTranscript_def speakText_def Let_def








lemma data_catch:
  "cryptoData (fetchCryptoDataCatch k err s) = cryptoData s"
  "historicalPrices (fetchCryptoDataCatch k err s) = historicalPrices s"
  by (simp_all add: fetchCryptoDataCatch_def Let_def host_calls)

lemma data_analysisStep:
  "cryptoData (analysisStep h k d s) = cryptoData s"
  "historicalPrices (analysisStep h k d s) = historicalPrices s"
  by (simp_all add: analysisStep_def speakAnalysis_def data_catch host_calls
      split: jsvalue.splits)

lemma data_fetchHistoricalPrices:
  "cryptoData (fetchHistoricalPrices h k d s) = cryptoData s"
  "historicalPrices (fetchHistoricalPrices h k d s) = historicalPrices s"
  by (simp_all add: fetchHistoricalPrices_def data_analysisStep split: option.splits)

lemma data_fetchCryptoData:
  "cryptoData (fetchCryptoData k s) = cryptoData s"
  "historicalPrices (fetchCryptoData k s) = historicalPrices s"
  by (simp_all add: fetchCryptoData_def Let_def data_catch split: option.splits)

lemma data_processCommand:
  "cryptoData (processCommand amb t s) = cryptoData s"
  "historicalPrices (processCommand amb t s) = historicalPrices s"
  by (simp_all add: processCommand_def Let_def handleConversation_def data_fetchCryptoData
      host_calls split: command.splits)

lemma data_autoListeningEffect:
  "cryptoData (autoListeningEffect p s) = cryptoData s"
  "historicalPrices (autoListeningEffect p s) = historicalPrices s"
  by (simp_all add: autoListeningEffect_def autoListeningBody_def host_calls)

lemma series_tickerResponse:
  "historicalPrices (tickerResponse h r s) = historicalPrices s"
  by (simp add: tickerResponse_def Let_def data_catch data_fetchHistoricalPrices
      split: pending.splits response.splits)

lemma snapshot_klinesResponse:
  "cryptoData (klinesResponse h r s) = cryptoData s"
  by (simp add: klinesResponse_def Let_def data_analysisStep
      split: pending.splits response.splits)

lemma snapshot_ticker_failure:
  "r = Rejected err \<or> r = NotOk \<Longrightarrow> cryptoData (tickerResponse h r s) = cryptoData s"
  by (auto simp: tickerResponse_def Let_def data_catch split: pending.splits)

lemma series_klines_failure:
  "r = Rejected err \<or> r = NotOk \<Longrightarrow>
     historicalPrices (klinesResponse h r s) = historicalPrices s"
  by (auto simp: klinesResponse_def Let_def data_analysisStep split: pending.splits)

lemma data_other_events:
  "e = SpeechEnd \<or> e = ToggleListening \<or> e = WakeWordTimeout \<or> e = Transcript t amb \<Longrightarrow>
     cryptoData (handle h s e) = cryptoData s
     \<and> historicalPrices (handle h s e) = historicalPrices s"
  by (auto simp: handle_def utteranceEnd_def toggleListening_def transcriptEffect_def
      data_processCommand host_calls split: option.splits)

lemma snapshot_changes_only_on_ticker:
  "cryptoData (step h s e) \<noteq> cryptoData s \<Longrightarrow> \<exists>d. e = TickerResponse (Ok d)"
proof (cases e)
  case (TickerResponse r)
  assume "cryptoData (step h s e) \<noteq> cryptoData s"
  with TickerResponse show ?thesis
    using snapshot_ticker_failure[of r _ h s]
    by (cases r) (auto simp: step_def handle_def data_autoListeningEffect)
next
  case (KlinesResponse r)
  assume "cryptoData (step h s e) \<noteq> cryptoData s"
  with KlinesResponse show ?thesis
    by (simp add: step_def handle_def data_autoListeningEffect snapshot_klinesResponse)
qed (use data_other_events[of e _ _ h s] in \<open>auto simp: step_def data_autoListeningEffect\<close>)

lemma series_changes_only_on_klines:
  "historicalPrices (step h s e) \<noteq> historicalPrices s \<Longrightarrow>
     \<exists>items. e = KlinesResponse (Ok items)"
proof (cases e)
  case (KlinesResponse r)
  assume "historicalPrices (step h s e) \<noteq> historicalPrices s"
  with KlinesResponse show ?thesis
    using series_klines_failure[of r _ h s]
    by (cases r) (auto simp: step_def handle_def data_autoListeningEffect)
next
  case (TickerResponse r)
  assume "historicalPrices (step h s e) \<noteq> historicalPrices s"
  with TickerResponse show ?thesis
    by (simp add: step_def handle_def data_autoListeningEffect series_tickerResponse)
qed (use data_other_events[of e _ _ h s] in \<open>auto simp: step_def data_autoListeningEffect\<close>)

lemma unresolved_alias:
  "normalizeSymbol k = None \<Longrightarrow>
     cryptoData (fetchCryptoData k s) = cryptoData s
   \<and> historicalPrices (fetchCryptoData k s) = historicalPrices s
   \<and> requests (fetchCryptoData k s) = requests s
   \<and> pending (fetchCryptoData k s) = pending s"
  by (simp add: fetchCryptoData_def Let_def fetchCryptoDataCatch_def host_calls)

lemma snapshot_stored:
  "pending s = AwaitTicker k n \<Longrightarrow>
     cryptoData (step h s (TickerResponse (Ok d))) =
       Some \<lparr>priceChange = priceChange d, priceChangePercent = priceChangePercent d,
             lastPrice = lastPrice d, volume = volume d, highPrice = highPrice d,
             lowPrice = lowPrice d, symbol = n\<rparr>"
  by (simp add: step_def handle_def tickerResponse_def Let_def data_autoListeningEffect
      data_fetchHistoricalPrices)

subsection \<open>The invariant is kept by every handler\<close>


















subsection \<open>The candles' answer and the stop command, step by step\<close>

lemma analysisStep_series:
  "analysisStep h k d (s\<lparr>historicalPrices := v\<rparr>) =
     (analysisStep h k d s)\<lparr>historicalPrices := v\<rparr>"
  by (simp add: analysisStep_def speakAnalysis_def fetchCryptoDataCatch_def Let_def host_calls
      split: jsvalue.splits)

lemma klines_failure_as_success:
  "r = Rejected err \<or> r = NotOk \<Longrightarrow>
     klinesResponse h r s =
       (klinesResponse h (Ok items) s)\<lparr>historicalPrices := historicalPrices s\<rparr>"
  by (cases "pending s")
     (auto simp: klinesResponse_def Let_def analysisStep_series data_analysisStep)

lemma autoListeningEffect_same:
  "autoListening s' = autoListening s \<Longrightarrow> autoListeningEffect s s' = s'"
  by (simp add: autoListeningEffect_def)

lemma autoListening_klinesResponse: "autoListening (klinesResponse h r s) = autoListening s"
  by (simp add: klinesResponse_def Let_def analysisStep_def speakAnalysis_def
      fetchCryptoDataCatch_def host_calls
      split: pending.splits response.splits jsvalue.splits)

lemma step_klines: "step h s (KlinesResponse r) = klinesResponse h r s"
  by (simp add: step_def handle_def autoListeningEffect_same autoListening_klinesResponse)

lemma stop_wake:
  "classify t = StopListening \<Longrightarrow>
   processCommand amb t s =
     resetTranscript
       (speakText ''I've stopped listening. Click the microphone button when you want me to listen again.''
          ((stopListening
              ((if str_includes (toLowerCase t) ''jarvis''
                then s\<lparr>wakeWordDetected := True, wakeWordTimer := True\<rparr> else s)
                 \<lparr>processingCommand := True, lastInteraction := ''conversation'',
                          autoListening := False\<rparr>))\<lparr>listening := False\<rparr>))"
  by (simp add: processCommand_def)

lemma stop_fields:
  assumes "classify t = StopListening" and "speechSynthesis s"
  shows "speaking (processCommand amb t s)"
    and "processingCommand (processCommand amb t s)"
    and "utterance (processCommand amb t s) =
         Some (formattedText ''I've stopped listening. Click the microphone button when you want me to listen again.'')"
    and "\<not> listening (processCommand amb t s)"
    and "\<not> autoListening (processCommand amb t s)"
    and "\<not> recognizing (processCommand amb t s)"
    and "stopListeningCalls (processCommand amb t s) = Suc (stopListeningCalls s)"
  using assms by (simp_all add: stop_wake host_calls)

lemma autoListeningEffect_off:
  "autoListening p \<Longrightarrow> \<not> autoListening s \<Longrightarrow>
     autoListeningEffect p s = stopListening s"
  by (simp add: autoListeningEffect_def autoListeningBody_def stopListening_def)

lemma speech_end_step:
  "utterance s = Some u \<Longrightarrow>
     step h s SpeechEnd =
       s\<lparr>speaking := False, processingCommand := False, utterance := None\<rparr>"
  by (simp add: step_def handle_def utteranceEnd_def autoListeningEffect_def)

lemma stop_step:
  assumes "classify t = StopListening"
    and "listening s" and "autoListening s" and "\<not> processingCommand s"
    and "speechSynthesis s"
  shows "step h s (Transcript t amb) = stopListening (processCommand amb t s)"
proof -
  from assms(1) have "t \<noteq> []" using classify_empty by auto
  with assms show ?thesis
    by (simp add: step_def handle_def transcriptEffect_def autoListeningEffect_off stop_fields)
qed

lemma step_NoCommand:
  "classify t = NoCommand \<Longrightarrow>
     spoken (step h s (Transcript t amb)) = spoken s
   \<and> utterance (step h s (Transcript t amb)) = utterance s
   \<and> requests (step h s (Transcript t amb)) = requests s
   \<and> processingCommand (step h s (Transcript t amb)) = processingCommand s
   \<and> transcriptResets (step h s (Transcript t amb)) = transcriptResets s"
  by (simp add: step_def handle_def transcriptEffect_def processCommand_def
      autoListeningEffect_def)

section \<open>The claims\<close>



text \<open>
  C2, as the code has it. A transcript that contains one of the phrases of the first test
  of \<open>processCommand\<close> (who are you, what are you, how are you, what can you do, your name,
  what time, what day, weather, joke, funny, goodbye, bye, see you) is answered by
  \<open>handleConversation\<close> with a topic other than the unrecognized one, whatever crypto
  aliases it contains. A transcript that contains none of them and contains a crypto
  alias is a crypto query: the greeting, thanks and help phrases are tested after the
  aliases.
\<close>

theorem classify_priority:
  "(conversationQuery (toLowerCase t) \<longrightarrow>
      classify t = Conversation (conversationTopic (toLowerCase t))
      \<and> conversationTopic (toLowerCase t) \<noteq> Unrecognized)
   \<and> (\<not> conversationQuery (toLowerCase t)
        \<and> (\<exists>k\<in>set cryptoKeywords. str_includes (toLowerCase t) k) \<longrightarrow>
      (\<exists>k. classify t = CryptoQuery k))"
proof (intro conjI impI)
  assume "conversationQuery (toLowerCase t)"
  then show "classify t = Conversation (conversationTopic (toLowerCase t))"
    by (simp add: classify_def toLowerCase_idem)
next
  assume "conversationQuery (toLowerCase t)"
  then show "conversationTopic (toLowerCase t) \<noteq> Unrecognized"
    by (rule conversationQuery_topic)
next
  assume a: "\<not> conversationQuery (toLowerCase t)
        \<and> (\<exists>k\<in>set cryptoKeywords. str_includes (toLowerCase t) k)"
  then obtain k
    where "find (\<lambda>keyword. str_includes (toLowerCase t) keyword) cryptoKeywords = Some k"
    using find_crypto by blast
  with a show "\<exists>k. classify t = CryptoQuery k"
    by (simp add: classify_def)
qed

theorem classify_priority_witness:
  "conversationQuery (toLowerCase ''how are you bitcoin'')
   \<and> classify ''how are you bitcoin''
       = Conversation (conversationTopic (toLowerCase ''how are you bitcoin''))
   \<and> conversationTopic (toLowerCase ''how are you bitcoin'') \<noteq> Unrecognized
   \<and> \<not> conversationQuery (toLowerCase ''thanks bitcoin'')
   \<and> (\<exists>k\<in>set cryptoKeywords. str_includes (toLowerCase ''thanks bitcoin'') k)
   \<and> (\<exists>k. classify ''thanks bitcoin'' = CryptoQuery k)"
proof -
  have a: "conversationQuery (toLowerCase ''how are you bitcoin'')"
    by code_simp
  have b: "\<not> conversationQuery (toLowerCase ''thanks bitcoin'')"
    by code_simp
  have c: "\<exists>k\<in>set cryptoKeywords. str_includes (toLowerCase ''thanks bitcoin'') k"
    by code_simp
  show ?thesis
    using a b c classify_priority[of "''how are you bitcoin''"]
      classify_priority[of "''thanks bitcoin''"]
    by blast
qed

text \<open>The claim as stated fails: "thanks", "hello" and "help me" are conversational
  phrases, and with an alias beside them the transcript is a crypto query.\<close>

theorem classify_priority_counterexample:
  "str_includes (toLowerCase ''thanks bitcoin'') ''thanks''
   \<and> str_includes (toLowerCase ''thanks bitcoin'') ''bitcoin''
   \<and> classify ''thanks bitcoin'' = CryptoQuery ''bitcoin''
   \<and> classify ''hello ethereum'' = CryptoQuery ''ethereum''
   \<and> classify ''help me with solana'' = CryptoQuery ''solana''"
  by code_simp

text \<open>
  C3, as the code has it. Classification is a function of the transcript and takes exactly
  one branch. When no phrase of the first test, no crypto alias, none of hello and hi,
  thank you and thanks, help, and no "stop listening" occurs in the lower-cased
  transcript, no command is issued: nothing is spoken or requested, the flag and the
  transcript are left alone. The reply for unrecognized queries is never selected.
\<close>

theorem classify_falls_through:
  "(\<exists>!c. classify t = c)
   \<and> (classify t = NoCommand \<longleftrightarrow>
        \<not> conversationQuery (toLowerCase t)
        \<and> (\<forall>k\<in>set cryptoKeywords. \<not> str_includes (toLowerCase t) k)
        \<and> \<not> str_includes (toLowerCase t) ''hello jarvis''
        \<and> \<not> str_includes (toLowerCase t) ''hi jarvis''
        \<and> \<not> str_includes (toLowerCase t) ''hello''
        \<and> \<not> str_includes (toLowerCase t) ''hi''
        \<and> \<not> str_includes (toLowerCase t) ''thank you''
        \<and> \<not> str_includes (toLowerCase t) ''thanks''
        \<and> \<not> str_includes (toLowerCase t) ''help''
        \<and> \<not> str_includes (toLowerCase t) ''stop listening'')
   \<and> classify t \<noteq> Conversation Unrecognized
   \<and> (classify t = NoCommand \<longrightarrow>
        spoken (step h s (Transcript t amb)) = spoken s
        \<and> utterance (step h s (Transcript t amb)) = utterance s
        \<and> requests (step h s (Transcript t amb)) = requests s
        \<and> processingCommand (step h s (Transcript t amb)) = processingCommand s
        \<and> transcriptResets (step h s (Transcript t amb)) = transcriptResets s)"
proof (intro conjI impI)
  show "\<exists>!c. classify t = c" by simp
  show "classify t = NoCommand \<longleftrightarrow>
        \<not> conversationQuery (toLowerCase t)
        \<and> (\<forall>k\<in>set cryptoKeywords. \<not> str_includes (toLowerCase t) k)
        \<and> \<not> str_includes (toLowerCase t) ''hello jarvis''
        \<and> \<not> str_includes (toLowerCase t) ''hi jarvis''
        \<and> \<not> str_includes (toLowerCase t) ''hello''
        \<and> \<not> str_includes (toLowerCase t) ''hi''
        \<and> \<not> str_includes (toLowerCase t) ''thank you''
        \<and> \<not> str_includes (toLowerCase t) ''thanks''
        \<and> \<not> str_includes (toLowerCase t) ''help''
        \<and> \<not> str_includes (toLowerCase t) ''stop listening''"
    by (rule classify_NoCommand_iff)
  show "classify t \<noteq> Conversation Unrecognized"
    by (rule classify_not_Unrecognized)
qed (simp_all add: step_NoCommand)

theorem classify_falls_through_witness:
  "classify ''tell me a story'' = NoCommand
   \<and> spoken (step sampleHost (mounted True True) (Transcript ''tell me a story'' sampleAmbient))
       = spoken (mounted True True)
   \<and> utterance (step sampleHost (mounted True True) (Transcript ''tell me a story'' sampleAmbient))
       = utterance (mounted True True)
   \<and> processingCommand
        (step sampleHost (mounted True True) (Transcript ''tell me a story'' sampleAmbient))
       = processingCommand (mounted True True)"
  using classify_falls_through[of "''tell me a story''" sampleHost "mounted True True"
      sampleAmbient] eval_classify(5)
  by blast

text \<open>The claim as stated fails: "good morning" matches nothing, and the listening
  component does not reply at all; its state is the one it had.\<close>

theorem classify_falls_through_counterexample:
  "classify ''good morning'' = NoCommand
   \<and> listening (mounted True True)
   \<and> \<not> processingCommand (mounted True True)
   \<and> step sampleHost (mounted True True) (Transcript ''good morning'' sampleAmbient)
       = mounted True True"
  by (simp add: machine eval_classify eval_wake)

text \<open>
  C4, as the code has it. Trend and sentiment take their direction from the sign of the
  price change (\<open>priceChange\<close>, the absolute change): upward and positive when it is
  greater than 0, downward and negative otherwise. Both are overridden, to relatively
  stable and neutral, exactly when the absolute value of the percent change is below 0.5.
  Where price change and percent change have the same sign, the direction is the one of
  the percent change.
\<close>

theorem trend_sentiment:
  "(trendOf a b = ''relatively stable'') = num_less (Math_abs b) (Fin (1/2))
   \<and> (sentimentOf a b = ''neutral'') = num_less (Math_abs b) (Fin (1/2))
   \<and> (\<not> num_less (Math_abs b) (Fin (1/2)) \<longrightarrow>
        trendOf a b = (if num_greater a (Fin 0) then ''upward'' else ''downward'')
        \<and> sentimentOf a b = (if num_greater a (Fin 0) then ''positive'' else ''negative''))
   \<and> ((0 < c) = (0 < p) \<and> 1/2 \<le> \<bar>p\<bar> \<longrightarrow>
        trendOf (Fin c) (Fin p) = (if 0 < p then ''upward'' else ''downward'')
        \<and> sentimentOf (Fin c) (Fin p) = (if 0 < p then ''positive'' else ''negative''))"
  by (simp add: trendOf_def sentimentOf_def Let_def num_greater_def)

text \<open>The scenario of the specification: a change of 500.00, which is 0.77 percent.\<close>

theorem trend_sentiment_witness:
  "\<not> num_less (Math_abs (Fin (77/100))) (Fin (1/2))
   \<and> (0 < (500::real)) = (0 < (77/100::real)) \<and> 1/2 \<le> \<bar>77/100::real\<bar>
   \<and> trendOf (Fin 500) (Fin (77/100)) = ''upward''
   \<and> sentimentOf (Fin 500) (Fin (77/100)) = ''positive''"
  using trend_sentiment[of "Fin 500" "Fin (77/100)" 500 "77/100"]
  by (simp add: num_greater_def)

text \<open>The claim as stated fails: with a price change of -1 and a percent change of 2 the
  trend is downward and the sentiment negative, although the percent change is positive.\<close>

theorem trend_sentiment_counterexample:
  "trendOf (Fin (- 1)) (Fin 2) = ''downward'' \<and> sentimentOf (Fin (- 1)) (Fin 2) = ''negative''"
  by (simp add: trendOf_def sentimentOf_def num_greater_def)

text \<open>
  C5. The thresholds are strict. A percent change of exactly 0.5 or -0.5 is not relatively
  stable: trend and sentiment come from the sign test. A percent change of exactly 5 or -5
  does not select the advice for a significant movement: the advice is the consolidation
  message for a relatively stable trend and the risk-tolerance message otherwise, and
  with the trend \<open>speakAnalysis\<close> computes it is the risk-tolerance message.
\<close>

theorem threshold_boundaries:
  "trendOf a (Fin (1/2)) = (if num_greater a (Fin 0) then ''upward'' else ''downward'')
   \<and> trendOf a (Fin (- 1/2)) = (if num_greater a (Fin 0) then ''upward'' else ''downward'')
   \<and> sentimentOf a (Fin (1/2)) = (if num_greater a (Fin 0) then ''positive'' else ''negative'')
   \<and> sentimentOf a (Fin (- 1/2)) = (if num_greater a (Fin 0) then ''positive'' else ''negative'')
   \<and> generateAdvice (Fin 5) tr =
       (if tr = ''relatively stable''
        then ''The market appears to be consolidating. This might be a period of accumulation before the next significant move.''
        else ''Consider your investment strategy based on your risk tolerance and long-term outlook.'')
   \<and> generateAdvice (Fin (- 5)) tr =
       (if tr = ''relatively stable''
        then ''The market appears to be consolidating. This might be a period of accumulation before the next significant move.''
        else ''Consider your investment strategy based on your risk tolerance and long-term outlook.'')
   \<and> generateAdvice (Fin 5) (trendOf a (Fin 5)) =
       ''Consider your investment strategy based on your risk tolerance and long-term outlook.''
   \<and> generateAdvice (Fin (- 5)) (trendOf a (Fin (- 5))) =
       ''Consider your investment strategy based on your risk tolerance and long-term outlook.''"
  by (simp add: trendOf_def sentimentOf_def generateAdvice_def Let_def num_greater_def)

text \<open>
  C6. The rules are applied in the order dollar sign, percent sign, decimals, newlines,
  white space. The decimal rule reads a number as dollars and cents when the matched
  digits contain a dollar sign, which they never do, or when the original text contains
  the word "price" or "dollar"; the dollar sign of \<open>$12.50\<close> has already become a word
  of the rewritten text, not of the original one. So \<open>$12.50\<close> is spoken as
  "dollars 12 point 50" and not in the currency form.
\<close>

theorem formattedText_dollar_amount:
  "formattedText ''$12.50'' = '' dollars 12 point 50''"
  by code_simp

text \<open>
  C7, as the code has it. When the fetch of the candles fails, the error is swallowed: the
  state after it is the state a successful fetch would have led to, except that the
  stored series is the one from before. For a string symbol and with speech synthesis
  the analysis is spoken, the error banner stays as it was, and so do the snapshot and
  the series. The chart is therefore empty only if no series was stored before.
\<close>

theorem history_failure_recovered:
  assumes "r = Rejected err \<or> r = NotOk"
  shows "step h s (KlinesResponse r) =
           (step h s (KlinesResponse (Ok items)))\<lparr>historicalPrices := historicalPrices s\<rparr>
     \<and> (pending s = AwaitKlines k d \<and> symbol d = Str x \<and> speechSynthesis s \<longrightarrow>
           utterance (step h s (KlinesResponse r)) = Some (formattedText (analysisText h x d))
         \<and> spoken (step h s (KlinesResponse r)) = spoken s @ [formattedText (analysisText h x d)]
         \<and> error (step h s (KlinesResponse r)) = error s
         \<and> cryptoData (step h s (KlinesResponse r)) = cryptoData s
         \<and> historicalPrices (step h s (KlinesResponse r)) = historicalPrices s)"
proof (intro conjI impI)
  show "step h s (KlinesResponse r) =
           (step h s (KlinesResponse (Ok items)))\<lparr>historicalPrices := historicalPrices s\<rparr>"
    using klines_failure_as_success[OF assms] by (simp add: step_klines)
next
  assume a: "pending s = AwaitKlines k d \<and> symbol d = Str x \<and> speechSynthesis s"
  with assms
  show "utterance (step h s (KlinesResponse r)) = Some (formattedText (analysisText h x d))"
    by (auto simp: step_klines klinesResponse_def Let_def analysisStep_def speakAnalysis_def
        host_calls)
  from a assms
  show "spoken (step h s (KlinesResponse r)) = spoken s @ [formattedText (analysisText h x d)]"
    by (auto simp: step_klines klinesResponse_def Let_def analysisStep_def speakAnalysis_def
        host_calls)
  from a assms show "error (step h s (KlinesResponse r)) = error s"
    by (auto simp: step_klines klinesResponse_def Let_def analysisStep_def speakAnalysis_def
        host_calls)
  from a assms show "cryptoData (step h s (KlinesResponse r)) = cryptoData s"
    by (simp add: step_klines snapshot_klinesResponse)
  from a assms show "historicalPrices (step h s (KlinesResponse r)) = historicalPrices s"
    by (simp add: step_klines series_klines_failure)
qed

text \<open>The first query after mounting: the candles fail, the analysis of the ticker is
  spoken, no error is shown and the series stays empty.\<close>

theorem history_failure_recovered_witness:
  "pending (run sampleHost (mounted True True)
              [Transcript ''bitcoin'' sampleAmbient, TickerResponse (Ok sampleTicker)])
     = AwaitKlines ''bitcoin''
         \<lparr>priceChange = ''500.00'', priceChangePercent = ''0.77'', lastPrice = ''65000.00'',
          volume = ''15000000'', highPrice = ''66000.00'', lowPrice = ''64000.00'',
          symbol = Str ''BTCUSDT''\<rparr>
   \<and> utterance (run sampleHost (mounted True True)
              [Transcript ''bitcoin'' sampleAmbient, TickerResponse (Ok sampleTicker),
               KlinesResponse NotOk])
     = Some (formattedText (analysisText sampleHost ''BTCUSDT''
         \<lparr>priceChange = ''500.00'', priceChangePercent = ''0.77'', lastPrice = ''65000.00'',
          volume = ''15000000'', highPrice = ''66000.00'', lowPrice = ''64000.00'',
          symbol = Str ''BTCUSDT''\<rparr>))
   \<and> error (run sampleHost (mounted True True)
              [Transcript ''bitcoin'' sampleAmbient, TickerResponse (Ok sampleTicker),
               KlinesResponse NotOk]) = None
   \<and> historicalPrices (run sampleHost (mounted True True)
              [Transcript ''bitcoin'' sampleAmbient, TickerResponse (Ok sampleTicker),
               KlinesResponse NotOk]) = []"
proof -
  let ?d = "\<lparr>priceChange = ''500.00'', priceChangePercent = ''0.77'', lastPrice = ''65000.00'',
          volume = ''15000000'', highPrice = ''66000.00'', lowPrice = ''64000.00'',
          symbol = Str ''BTCUSDT''\<rparr>"
  let ?s = "run sampleHost (mounted True True)
              [Transcript ''bitcoin'' sampleAmbient, TickerResponse (Ok sampleTicker)]"
  have p: "pending ?s = AwaitKlines ''bitcoin'' ?d"
    by (simp add: machine eval_classify eval_wake eval_normalize sampleTicker_def)
  have y: "speechSynthesis ?s" "error ?s = None" "historicalPrices ?s = []"
    by (simp_all add: machine eval_classify eval_wake eval_normalize)
  have r: "run sampleHost (mounted True True)
              [Transcript ''bitcoin'' sampleAmbient, TickerResponse (Ok sampleTicker),
               KlinesResponse NotOk] = step sampleHost ?s (KlinesResponse NotOk)"
    by simp
  have "NotOk = Rejected None \<or> (NotOk :: (number \<times> string) list response) = NotOk"
    by simp
  note t = history_failure_recovered[OF this, of sampleHost ?s "[]" "''bitcoin''" ?d
      "''BTCUSDT''"]
  have c: "pending ?s = AwaitKlines ''bitcoin'' ?d \<and> symbol ?d = Str ''BTCUSDT''
      \<and> speechSynthesis ?s"
    using p y by simp
  from t c
  have "utterance (step sampleHost ?s (KlinesResponse NotOk))
          = Some (formattedText (analysisText sampleHost ''BTCUSDT'' ?d))
     \<and> error (step sampleHost ?s (KlinesResponse NotOk)) = error ?s
     \<and> historicalPrices (step sampleHost ?s (KlinesResponse NotOk)) = historicalPrices ?s"
    by blast
  then show ?thesis
    unfolding r using p y by metis
qed

text \<open>The claim as stated fails: after a query for bitcoin with its candles, a query for
  ethereum whose candles fail leaves the candles of bitcoin in the chart, under the
  snapshot of ETHUSDT.\<close>

theorem history_failure_recovered_counterexample:
  "historicalPrices
     (run sampleHost (mounted True True)
        [Transcript ''bitcoin'' sampleAmbient, TickerResponse (Ok sampleTicker),
         KlinesResponse (Ok [(NaN, ''64000.00'')]), SpeechEnd,
         Transcript ''ethereum'' sampleAmbient, TickerResponse (Ok sampleTicker),
         KlinesResponse NotOk])
   = [\<lparr>time = NaN, price = NaN\<rparr>]
   \<and> map_option symbol (cryptoData
     (run sampleHost (mounted True True)
        [Transcript ''bitcoin'' sampleAmbient, TickerResponse (Ok sampleTicker),
         KlinesResponse (Ok [(NaN, ''64000.00'')]), SpeechEnd,
         Transcript ''ethereum'' sampleAmbient, TickerResponse (Ok sampleTicker),
         KlinesResponse NotOk])) = Some (Str ''ETHUSDT'')"
  by (simp add: machine eval_classify eval_wake eval_normalize sampleHost_def)

text \<open>
  C8. The stored snapshot and series are replaced only on success. A symbol that
  \<open>normalizeSymbol\<close> does not resolve changes neither and sends no request; a ticker fetch
  that is rejected or not ok changes neither; the snapshot changes in no step other than
  the arrival of a ticker body, the series in no step other than the arrival of a body of
  candles (so dispatching a query clears nothing); and the ticker body that arrives is
  stored as the snapshot.
\<close>

theorem market_data_replaced_only_on_success:
  "(normalizeSymbol k = None \<longrightarrow>
       cryptoData (fetchCryptoData k s) = cryptoData s
     \<and> historicalPrices (fetchCryptoData k s) = historicalPrices s
     \<and> requests (fetchCryptoData k s) = requests s
     \<and> pending (fetchCryptoData k s) = pending s)
   \<and> (r = Rejected err \<or> r = NotOk \<longrightarrow>
       cryptoData (step h s (TickerResponse r)) = cryptoData s
     \<and> historicalPrices (step h s (TickerResponse r)) = historicalPrices s)
   \<and> (cryptoData (step h s e) \<noteq> cryptoData s \<longrightarrow> (\<exists>d. e = TickerResponse (Ok d)))
   \<and> (historicalPrices (step h s e) \<noteq> historicalPrices s \<longrightarrow>
        (\<exists>items. e = KlinesResponse (Ok items)))
   \<and> (pending s = AwaitTicker k n \<longrightarrow>
       cryptoData (step h s (TickerResponse (Ok d))) =
         Some \<lparr>priceChange = priceChange d, priceChangePercent = priceChangePercent d,
               lastPrice = lastPrice d, volume = volume d, highPrice = highPrice d,
               lowPrice = lowPrice d, symbol = n\<rparr>)"
proof (intro conjI impI)
  assume "r = Rejected err \<or> r = NotOk"
  then show "cryptoData (step h s (TickerResponse r)) = cryptoData s"
    by (simp add: step_def handle_def data_autoListeningEffect snapshot_ticker_failure)
next
  show "historicalPrices (step h s (TickerResponse r)) = historicalPrices s"
    by (simp add: step_def handle_def data_autoListeningEffect series_tickerResponse)
qed (simp_all add: unresolved_alias snapshot_changes_only_on_ticker
      series_changes_only_on_klines snapshot_stored)

text \<open>An unknown name, and a failing, then a succeeding ticker for "bitcoin".\<close>

theorem market_data_replaced_only_on_success_witness:
  "normalizeSymbol ''moonrocket'' = None
   \<and> cryptoData (fetchCryptoData ''moonrocket'' (mounted True True))
       = cryptoData (mounted True True)
   \<and> pending (step sampleHost (mounted True True) (Transcript ''bitcoin'' sampleAmbient))
       = AwaitTicker ''bitcoin'' (Str ''BTCUSDT'')
   \<and> cryptoData (run sampleHost (mounted True True)
        [Transcript ''bitcoin'' sampleAmbient, TickerResponse NotOk]) = None
   \<and> cryptoData (run sampleHost (mounted True True)
        [Transcript ''bitcoin'' sampleAmbient, TickerResponse (Ok sampleTicker)])
       = Some \<lparr>priceChange = ''500.00'', priceChangePercent = ''0.77'',
               lastPrice = ''65000.00'', volume = ''15000000'', highPrice = ''66000.00'',
               lowPrice = ''64000.00'', symbol = Str ''BTCUSDT''\<rparr>"
proof -
  let ?s = "step sampleHost (mounted True True) (Transcript ''bitcoin'' sampleAmbient)"
  have u: "normalizeSymbol ''moonrocket'' = None"
    by (rule eval_normalize)
  have p: "pending ?s = AwaitTicker ''bitcoin'' (Str ''BTCUSDT'')"
    by (simp add: machine eval_classify eval_wake eval_normalize)
  have c: "cryptoData ?s = None"
    by (simp add: machine eval_classify eval_wake eval_normalize)
  have n: "NotOk = Rejected None \<or> (NotOk :: Ticker24hr response) = NotOk"
    by simp
  note a = market_data_replaced_only_on_success[of "''moonrocket''" "mounted True True"
      NotOk None sampleHost SpeechEnd "Str ''BTCUSDT''" sampleTicker]
  note b = market_data_replaced_only_on_success[of "''bitcoin''" ?s
      NotOk None sampleHost SpeechEnd "Str ''BTCUSDT''" sampleTicker]
  from a u have 1: "cryptoData (fetchCryptoData ''moonrocket'' (mounted True True))
       = cryptoData (mounted True True)"
    by blast
  from b n c have 2: "cryptoData (step sampleHost ?s (TickerResponse NotOk)) = None"
    by simp
  from b p have 3: "cryptoData (step sampleHost ?s (TickerResponse (Ok sampleTicker)))
       = Some \<lparr>priceChange = ''500.00'', priceChangePercent = ''0.77'',
               lastPrice = ''65000.00'', volume = ''15000000'', highPrice = ''66000.00'',
               lowPrice = ''64000.00'', symbol = Str ''BTCUSDT''\<rparr>"
    by (simp add: sampleTicker_def)
  from u 1 p 2 3 show ?thesis by simp
qed

text \<open>
  C9, as the code has it. A transcript whose branch is the stop command (it contains "stop
  listening" and nothing that an earlier test matches), received while listening with
  the flag clear, stops the stream at once: \<open>listening\<close> and \<open>autoListening\<close> become false
  and \<open>SpeechRecognition.stopListening\<close> is called by the branch and again by the clean-up
  of the auto-listening effect, while the confirmation starts to be spoken. The end of
  the utterance clears \<open>speaking\<close> and the flag and changes nothing else.
\<close>

theorem stop_listening_sequence:
  assumes "classify t = StopListening"
    and "listening s" and "autoListening s" and "\<not> processingCommand s"
    and "speechSynthesis s"
  shows "speaking (step h s (Transcript t amb))
     \<and> processingCommand (step h s (Transcript t amb))
     \<and> utterance (step h s (Transcript t amb)) =
         Some (formattedText ''I've stopped listening. Click the microphone button when you want me to listen again.'')
     \<and> \<not> listening (step h s (Transcript t amb))
     \<and> \<not> autoListening (step h s (Transcript t amb))
     \<and> \<not> recognizing (step h s (Transcript t amb))
     \<and> stopListeningCalls (step h s (Transcript t amb)) = stopListeningCalls s + 2
     \<and> step h (step h s (Transcript t amb)) SpeechEnd =
         (step h s (Transcript t amb))
           \<lparr>speaking := False, processingCommand := False, utterance := None\<rparr>"
proof -
  let ?s1 = "step h s (Transcript t amb)"
  have st: "?s1 = stopListening (processCommand amb t s)"
    using assms by (rule stop_step)
  have u: "utterance ?s1 =
      Some (formattedText ''I've stopped listening. Click the microphone button when you want me to listen again.'')"
    unfolding st using stop_fields(3)[OF assms(1,5)] by (simp add: stopListening_def)
  have e: "step h ?s1 SpeechEnd =
      ?s1\<lparr>speaking := False, processingCommand := False, utterance := None\<rparr>"
    using u by (rule speech_end_step)
  have f: "speaking ?s1" "processingCommand ?s1" "\<not> listening ?s1" "\<not> autoListening ?s1"
       "\<not> recognizing ?s1" "stopListeningCalls ?s1 = stopListeningCalls s + 2"
    unfolding st using stop_fields[OF assms(1,5), of amb] by (simp_all add: stopListening_def)
  from u e f show ?thesis by blast
qed

theorem stop_listening_sequence_witness:
  "classify ''stop listening'' = StopListening
   \<and> listening (mounted True True) \<and> autoListening (mounted True True)
   \<and> \<not> processingCommand (mounted True True) \<and> speechSynthesis (mounted True True)
   \<and> speaking (step sampleHost (mounted True True) (Transcript ''stop listening'' sampleAmbient))
   \<and> \<not> listening (step sampleHost (mounted True True) (Transcript ''stop listening'' sampleAmbient))
   \<and> \<not> recognizing
        (step sampleHost (mounted True True) (Transcript ''stop listening'' sampleAmbient))
   \<and> stopListeningCalls
        (step sampleHost (mounted True True) (Transcript ''stop listening'' sampleAmbient))
       = stopListeningCalls (mounted True True) + 2"
proof -
  have c: "classify ''stop listening'' = StopListening"
    by (rule eval_classify)
  have m: "listening (mounted True True)" "autoListening (mounted True True)"
    "\<not> processingCommand (mounted True True)" "speechSynthesis (mounted True True)"
    by (simp_all add: mounted_def autoListeningBody_def startListening_def)
  from stop_listening_sequence[OF c m, of sampleHost sampleAmbient] c m
  show ?thesis by blast
qed

text \<open>The claim as stated fails: right after the transcript "stop listening", while the
  confirmation is still being spoken, the component no longer listens, the stream is
  off and \<open>stopListening\<close> has been called twice; and "stop listening to this" is taken
  as a greeting, for the "hi" in "this".\<close>

theorem stop_listening_sequence_counterexample:
  "utterance (step sampleHost (mounted True True) (Transcript ''stop listening'' sampleAmbient))
     \<noteq> None
   \<and> speaking (step sampleHost (mounted True True) (Transcript ''stop listening'' sampleAmbient))
   \<and> \<not> listening (step sampleHost (mounted True True) (Transcript ''stop listening'' sampleAmbient))
   \<and> \<not> recognizing
        (step sampleHost (mounted True True) (Transcript ''stop listening'' sampleAmbient))
   \<and> stopListeningCalls
        (step sampleHost (mounted True True) (Transcript ''stop listening'' sampleAmbient)) = 2
   \<and> classify ''stop listening to this'' = Hello"
proof -
  have "classify ''stop listening to this'' = Hello"
    by code_simp
  then show ?thesis
    by (simp add: machine eval_classify eval_wake)
qed


end
